theory Spec2Isabelle
  imports Main "HOL-Library.Word"
begin

section \<open>The headers the file is compiled against\<close>

text \<open>
  \<^verbatim>\<open>process_collector_cgo_darwin.c\<close> consists of eleven parameterless C functions, each of
  which returns a macro of \<^verbatim>\<open><mach/shared_memory_server.h>\<close> or a \<^verbatim>\<open>sizeof\<close> / \<^verbatim>\<open>offsetof\<close>
  of a structure declared by the Mach headers. The file itself declares neither the macros
  nor the structures, so the model takes them as a parameter: the \<open>headers\<close> in force when
  the file is compiled.

  A member of a structure is given by its name and by the size and the alignment of its
  type. C alignments are powers of two, so the alignment is given by its exponent. A
  structure declaration is the list of its direct members in declaration order (named
  members that are not bit-fields: the file applies \<^verbatim>\<open>sizeof\<close> and \<^verbatim>\<open>offsetof\<close> to them), with
  the \<^verbatim>\<open>#pragma pack\<close> value in force at the declaration, if any (again as an exponent).
  A macro is given by the value of the integer constant expression it expands to.
\<close>

record member =
  mname :: string
  msize :: nat
  malign_log2 :: nat

record struct_decl =
  pack_log2 :: "nat option"
  members :: "member list"

record headers =
  macros :: "(string \<times> int) list"
  structs :: "(string \<times> struct_decl) list"

text \<open>
  The build tag of the file is \<^verbatim>\<open>cgo && darwin\<close>; on the Darwin targets \<^verbatim>\<open>size_t\<close> is an
  unsigned 64-bit integer.
\<close>

type_synonym size_t = "64 word"

subsection \<open>Structure layout\<close>

text \<open>
  The layout rule of the C ABI: members are placed in declaration order, each at the next
  offset that is a multiple of its alignment (capped by the pack value); the size of the
  structure is the end of the last member, rounded up to the largest member alignment.
\<close>

definition align_up :: "nat \<Rightarrow> nat \<Rightarrow> nat" where
  "align_up a n = ((n + a - 1) div a) * a"

definition member_align :: "nat option \<Rightarrow> member \<Rightarrow> nat" where
  "member_align pk m =
     2 ^ (case pk of None \<Rightarrow> malign_log2 m | Some k \<Rightarrow> min k (malign_log2 m))"

fun offset_in :: "nat option \<Rightarrow> nat \<Rightarrow> member list \<Rightarrow> string \<Rightarrow> nat option" where
  "offset_in pk off [] f = None"
| "offset_in pk off (m # ms) f =
     (let start = align_up (member_align pk m) off
      in if mname m = f then Some start else offset_in pk (start + msize m) ms f)"

fun end_in :: "nat option \<Rightarrow> nat \<Rightarrow> member list \<Rightarrow> nat" where
  "end_in pk off [] = off"
| "end_in pk off (m # ms) = end_in pk (align_up (member_align pk m) off + msize m) ms"

fun struct_align :: "nat option \<Rightarrow> member list \<Rightarrow> nat" where
  "struct_align pk [] = 1"
| "struct_align pk (m # ms) = max (member_align pk m) (struct_align pk ms)"

definition sizeof_struct :: "struct_decl \<Rightarrow> nat" where
  "sizeof_struct d =
     align_up (struct_align (pack_log2 d) (members d)) (end_in (pack_log2 d) 0 (members d))"

definition offsetof :: "struct_decl \<Rightarrow> string \<Rightarrow> nat option" where
  "offsetof d f = offset_in (pack_log2 d) 0 (members d) f"

fun find_member :: "member list \<Rightarrow> string \<Rightarrow> member option" where
  "find_member [] f = None"
| "find_member (m # ms) f = (if mname m = f then Some m else find_member ms f)"

definition sizeof_member :: "struct_decl \<Rightarrow> string \<Rightarrow> nat option" where
  "sizeof_member d f = map_option msize (find_member (members d) f)"

subsection \<open>The C operators the file uses\<close>

text \<open>
  A name that the headers do not declare makes the compilation fail; this is the only way
  in which one of the functions can fail to produce a value, and it is an error of the
  build, not of a call.
\<close>

datatype build_error =
    UndeclaredIdentifier string
  | IncompleteType string
  | NoMember string string

text \<open>\<^verbatim>\<open>return M;\<close> for a macro \<open>M\<close>: the value is converted to \<^verbatim>\<open>size_t\<close>.\<close>

definition c_macro :: "headers \<Rightarrow> string \<Rightarrow> build_error + size_t" where
  "c_macro h n =
     (case map_of (macros h) n of
        None \<Rightarrow> Inl (UndeclaredIdentifier n)
      | Some v \<Rightarrow> Inr (word_of_int v))"

text \<open>\<^verbatim>\<open>sizeof(struct s)\<close>.\<close>

definition c_sizeof_struct :: "headers \<Rightarrow> string \<Rightarrow> build_error + size_t" where
  "c_sizeof_struct h s =
     (case map_of (structs h) s of
        None \<Rightarrow> Inl (IncompleteType s)
      | Some d \<Rightarrow> Inr (of_nat (sizeof_struct d)))"

text \<open>\<^verbatim>\<open>offsetof(struct s, f)\<close>.\<close>

definition c_offsetof :: "headers \<Rightarrow> string \<Rightarrow> string \<Rightarrow> build_error + size_t" where
  "c_offsetof h s f =
     (case map_of (structs h) s of
        None \<Rightarrow> Inl (IncompleteType s)
      | Some d \<Rightarrow>
          (case offsetof d f of
             None \<Rightarrow> Inl (NoMember s f)
           | Some off \<Rightarrow> Inr (of_nat off)))"

text \<open>
  \<^verbatim>\<open>struct s x; return sizeof(x.f);\<close>. The operand of \<^verbatim>\<open>sizeof\<close> is not evaluated: the
  result is the size of the type of the member, and the indeterminate contents of the
  local \<open>x\<close> are never read.
\<close>

definition c_sizeof_field :: "headers \<Rightarrow> string \<Rightarrow> string \<Rightarrow> build_error + size_t" where
  "c_sizeof_field h s f =
     (case map_of (structs h) s of
        None \<Rightarrow> Inl (IncompleteType s)
      | Some d \<Rightarrow>
          (case sizeof_member d f of
             None \<Rightarrow> Inl (NoMember s f)
           | Some n \<Rightarrow> Inr (of_nat n)))"

section \<open>The accessors\<close>

definition getGlobalSharedTextSegment :: "headers \<Rightarrow> build_error + size_t" where
  "getGlobalSharedTextSegment h = c_macro h ''GLOBAL_SHARED_TEXT_SEGMENT''"

definition getSharedTextRegionSize :: "headers \<Rightarrow> build_error + size_t" where
  "getSharedTextRegionSize h = c_macro h ''SHARED_TEXT_REGION_SIZE''"

definition getSharedDataRegionSize :: "headers \<Rightarrow> build_error + size_t" where
  "getSharedDataRegionSize h = c_macro h ''SHARED_DATA_REGION_SIZE''"

definition getSizeofMachTaskBasicInfo :: "headers \<Rightarrow> build_error + size_t" where
  "getSizeofMachTaskBasicInfo h = c_sizeof_struct h ''mach_task_basic_info''"

definition getOffsetOfMachTaskBasicInfo_virtual_size :: "headers \<Rightarrow> build_error + size_t" where
  "getOffsetOfMachTaskBasicInfo_virtual_size h =
     c_offsetof h ''mach_task_basic_info'' ''virtual_size''"

definition getSizeofMachTaskBasicInfo_virtual_size :: "headers \<Rightarrow> build_error + size_t" where
  "getSizeofMachTaskBasicInfo_virtual_size h =
     c_sizeof_field h ''mach_task_basic_info'' ''virtual_size''"

definition getOffsetOfMachTaskBasicInfo_resident_size :: "headers \<Rightarrow> build_error + size_t" where
  "getOffsetOfMachTaskBasicInfo_resident_size h =
     c_offsetof h ''mach_task_basic_info'' ''resident_size''"

definition getSizeofMachTaskBasicInfo_resident_size :: "headers \<Rightarrow> build_error + size_t" where
  "getSizeofMachTaskBasicInfo_resident_size h =
     c_sizeof_field h ''mach_task_basic_info'' ''resident_size''"

definition getSizeofVmRegionBasicInfo64 :: "headers \<Rightarrow> build_error + size_t" where
  "getSizeofVmRegionBasicInfo64 h = c_sizeof_struct h ''vm_region_basic_info_64''"

definition getOffsetOfVmRegionBasicInfo64_reserved :: "headers \<Rightarrow> build_error + size_t" where
  "getOffsetOfVmRegionBasicInfo64_reserved h =
     c_offsetof h ''vm_region_basic_info_64'' ''reserved''"

definition getSizeofVmRegionBasicInfo64_reserved :: "headers \<Rightarrow> build_error + size_t" where
  "getSizeofVmRegionBasicInfo64_reserved h =
     c_sizeof_field h ''vm_region_basic_info_64'' ''reserved''"

subsection \<open>Calls\<close>

text \<open>
  None of the functions has a parameter, names an object with static storage, or evaluates
  an lvalue. A call therefore computes its value from the build alone and leaves the
  memory of the calling process as it found it.
\<close>

datatype accessor =
    GlobalSharedTextSegment
  | SharedTextRegionSize
  | SharedDataRegionSize
  | SizeofMachTaskBasicInfo
  | OffsetOfMachTaskBasicInfo_virtual_size
  | SizeofMachTaskBasicInfo_virtual_size
  | OffsetOfMachTaskBasicInfo_resident_size
  | SizeofMachTaskBasicInfo_resident_size
  | SizeofVmRegionBasicInfo64
  | OffsetOfVmRegionBasicInfo64_reserved
  | SizeofVmRegionBasicInfo64_reserved

fun body :: "headers \<Rightarrow> accessor \<Rightarrow> build_error + size_t" where
  "body h GlobalSharedTextSegment = getGlobalSharedTextSegment h"
| "body h SharedTextRegionSize = getSharedTextRegionSize h"
| "body h SharedDataRegionSize = getSharedDataRegionSize h"
| "body h SizeofMachTaskBasicInfo = getSizeofMachTaskBasicInfo h"
| "body h OffsetOfMachTaskBasicInfo_virtual_size = getOffsetOfMachTaskBasicInfo_virtual_size h"
| "body h SizeofMachTaskBasicInfo_virtual_size = getSizeofMachTaskBasicInfo_virtual_size h"
| "body h OffsetOfMachTaskBasicInfo_resident_size = getOffsetOfMachTaskBasicInfo_resident_size h"
| "body h SizeofMachTaskBasicInfo_resident_size = getSizeofMachTaskBasicInfo_resident_size h"
| "body h SizeofVmRegionBasicInfo64 = getSizeofVmRegionBasicInfo64 h"
| "body h OffsetOfVmRegionBasicInfo64_reserved = getOffsetOfVmRegionBasicInfo64_reserved h"
| "body h SizeofVmRegionBasicInfo64_reserved = getSizeofVmRegionBasicInfo64_reserved h"

record process =
  memory :: "nat \<Rightarrow> 8 word"

definition call :: "headers \<Rightarrow> accessor \<Rightarrow> process \<Rightarrow> (build_error + size_t) \<times> process" where
  "call h a p = (body h a, p)"

fun run :: "headers \<Rightarrow> accessor list \<Rightarrow> process \<Rightarrow> (build_error + size_t) list \<times> process" where
  "run h [] p = ([], p)"
| "run h (a # as) p =
     (let (v, p') = call h a p; (vs, p'') = run h as p' in (v # vs, p''))"

subsection \<open>Builds\<close>

text \<open>
  The file compiles when the headers declare the three macros, the two structures and the
  three members it names.
\<close>

definition has_member :: "struct_decl \<Rightarrow> string \<Rightarrow> bool" where
  "has_member d f \<longleftrightarrow> f \<in> set (map mname (members d))"

definition compiles :: "headers \<Rightarrow> bool" where
  "compiles h \<longleftrightarrow>
     map_of (macros h) ''GLOBAL_SHARED_TEXT_SEGMENT'' \<noteq> None \<and>
     map_of (macros h) ''SHARED_TEXT_REGION_SIZE'' \<noteq> None \<and>
     map_of (macros h) ''SHARED_DATA_REGION_SIZE'' \<noteq> None \<and>
     (case map_of (structs h) ''mach_task_basic_info'' of
        None \<Rightarrow> False
      | Some d \<Rightarrow> has_member d ''virtual_size'' \<and> has_member d ''resident_size'') \<and>
     (case map_of (structs h) ''vm_region_basic_info_64'' of
        None \<Rightarrow> False
      | Some d \<Rightarrow> has_member d ''reserved'')"

text \<open>
  \<^verbatim>\<open>sizeof\<close> has type \<^verbatim>\<open>size_t\<close>: a structure the compiler accepts has a size that
  \<^verbatim>\<open>size_t\<close> can hold.
\<close>

definition fits_size_t :: "headers \<Rightarrow> string \<Rightarrow> bool" where
  "fits_size_t h s =
     (case map_of (structs h) s of
        None \<Rightarrow> False
      | Some d \<Rightarrow> int (sizeof_struct d) < 2 ^ 64)"

subsection \<open>A concrete header set\<close>

text \<open>
  Declarations in the shape of those of a 64-bit Darwin SDK, where the Mach headers are
  under \<^verbatim>\<open>#pragma pack(4)\<close>. They are the concrete input at which the theorems below are
  instantiated.
\<close>

definition example_task_info :: struct_decl where
  "example_task_info =
     \<lparr>pack_log2 = Some 2,
      members =
        [\<lparr>mname = ''virtual_size'', msize = 8, malign_log2 = 3\<rparr>,
         \<lparr>mname = ''resident_size'', msize = 8, malign_log2 = 3\<rparr>,
         \<lparr>mname = ''resident_size_max'', msize = 8, malign_log2 = 3\<rparr>,
         \<lparr>mname = ''user_time'', msize = 8, malign_log2 = 2\<rparr>,
         \<lparr>mname = ''system_time'', msize = 8, malign_log2 = 2\<rparr>,
         \<lparr>mname = ''policy'', msize = 4, malign_log2 = 2\<rparr>,
         \<lparr>mname = ''suspend_count'', msize = 4, malign_log2 = 2\<rparr>]\<rparr>"

definition example_region_info :: struct_decl where
  "example_region_info =
     \<lparr>pack_log2 = Some 2,
      members =
        [\<lparr>mname = ''protection'', msize = 4, malign_log2 = 2\<rparr>,
         \<lparr>mname = ''max_protection'', msize = 4, malign_log2 = 2\<rparr>,
         \<lparr>mname = ''inheritance'', msize = 4, malign_log2 = 2\<rparr>,
         \<lparr>mname = ''shared'', msize = 4, malign_log2 = 2\<rparr>,
         \<lparr>mname = ''reserved'', msize = 4, malign_log2 = 2\<rparr>,
         \<lparr>mname = ''offset'', msize = 8, malign_log2 = 3\<rparr>,
         \<lparr>mname = ''behavior'', msize = 4, malign_log2 = 2\<rparr>,
         \<lparr>mname = ''user_wired_count'', msize = 2, malign_log2 = 1\<rparr>]\<rparr>"

definition example_headers :: headers where
  "example_headers =
     \<lparr>macros =
        [(''GLOBAL_SHARED_TEXT_SEGMENT'', 0x90000000),
         (''SHARED_TEXT_REGION_SIZE'', 0x10000000),
         (''SHARED_DATA_REGION_SIZE'', 0x10000000)],
      structs =
        [(''mach_task_basic_info'', example_task_info),
         (''vm_region_basic_info_64'', example_region_info)]\<rparr>"

subsection \<open>The kernel constants\<close>

text \<open>
  Modelled from the spec: the values of the macros \<^verbatim>\<open>SHARED_TEXT_REGION_SIZE\<close> and
  \<^verbatim>\<open>SHARED_DATA_REGION_SIZE\<close>. They are defined by \<^verbatim>\<open><mach/shared_memory_server.h>\<close>,
  a header of the operating system that is not among the sources. The specification says
  of them that they are positive fixed constants, and of every reported value that it is
  representable in 64 bits (as the value of any C integer constant is).
\<close>

definition region_sizes_as_specified :: "headers \<Rightarrow> bool" where
  "region_sizes_as_specified h \<longleftrightarrow>
     (case map_of (macros h) ''SHARED_TEXT_REGION_SIZE'' of
        None \<Rightarrow> False
      | Some v \<Rightarrow> 0 < v \<and> v < 2 ^ 64) \<and>
     (case map_of (macros h) ''SHARED_DATA_REGION_SIZE'' of
        None \<Rightarrow> False
      | Some v \<Rightarrow> 0 < v \<and> v < 2 ^ 64)"

section \<open>Properties of the layout\<close>

lemma member_align_pos: "0 < member_align pk m"
  by (simp add: member_align_def)

lemma align_up_ge: "0 < a \<Longrightarrow> n \<le> align_up a n"
proof -
  assume pos: "0 < a"
  let ?k = "n + a - 1"
  have "?k mod a < a" using pos by simp
  moreover have "?k div a * a + ?k mod a = ?k" by simp
  ultimately have "n \<le> ?k div a * a" by linarith
  then show ?thesis by (simp add: align_up_def)
qed

lemma end_in_ge: "off \<le> end_in pk off ms"
proof (induction ms arbitrary: off)
  case Nil
  show ?case by simp
next
  case (Cons m ms)
  have "off \<le> align_up (member_align pk m) off"
    by (rule align_up_ge [OF member_align_pos])
  also have "\<dots> \<le> align_up (member_align pk m) off + msize m" by simp
  also have "\<dots> \<le> end_in pk (align_up (member_align pk m) off + msize m) ms"
    by (rule Cons.IH)
  finally show ?case by simp
qed

lemma offset_in_bounds:
  "offset_in pk off ms f = Some start \<Longrightarrow> find_member ms f = Some m \<Longrightarrow>
   off \<le> start \<and> start + msize m \<le> end_in pk off ms"
proof (induction ms arbitrary: off)
  case Nil
  then show ?case by simp
next
  case (Cons x xs)
  let ?s = "align_up (member_align pk x) off"
  have ge: "off \<le> ?s" by (rule align_up_ge [OF member_align_pos])
  show ?case
  proof (cases "mname x = f")
    case True
    with Cons.prems have "start = ?s" "m = x" by (simp_all add: Let_def)
    moreover have "?s + msize x \<le> end_in pk (?s + msize x) xs" by (rule end_in_ge)
    ultimately show ?thesis using ge by simp
  next
    case False
    with Cons.prems have "offset_in pk (?s + msize x) xs f = Some start" "find_member xs f = Some m"
      by (simp_all add: Let_def)
    from Cons.IH [OF this] ge show ?thesis by simp
  qed
qed

lemma offset_in_disjoint:
  "f \<noteq> g \<Longrightarrow>
   offset_in pk off ms f = Some sf \<Longrightarrow> find_member ms f = Some mf \<Longrightarrow>
   offset_in pk off ms g = Some sg \<Longrightarrow> find_member ms g = Some mg \<Longrightarrow>
   sf + msize mf \<le> sg \<or> sg + msize mg \<le> sf"
proof (induction ms arbitrary: off)
  case Nil
  then show ?case by simp
next
  case (Cons x xs)
  let ?s = "align_up (member_align pk x) off"
  consider (f) "mname x = f" | (g) "mname x = g" | (neither) "mname x \<noteq> f" "mname x \<noteq> g"
    by blast
  then show ?case
  proof cases
    case f
    with Cons.prems have a: "sf = ?s" "mf = x" and b: "offset_in pk (?s + msize x) xs g = Some sg"
      "find_member xs g = Some mg"
      by (simp_all add: Let_def)
    from offset_in_bounds [OF b] a show ?thesis by simp
  next
    case g
    with Cons.prems have a: "sg = ?s" "mg = x" and b: "offset_in pk (?s + msize x) xs f = Some sf"
      "find_member xs f = Some mf"
      by (simp_all add: Let_def)
    from offset_in_bounds [OF b] a show ?thesis by simp
  next
    case neither
    with Cons.prems have "offset_in pk (?s + msize x) xs f = Some sf" "find_member xs f = Some mf"
      "offset_in pk (?s + msize x) xs g = Some sg" "find_member xs g = Some mg"
      by (simp_all add: Let_def)
    from Cons.IH [OF Cons.prems(1) this] show ?thesis .
  qed
qed

lemma find_member_Some: "f \<in> set (map mname ms) \<Longrightarrow> \<exists>m. find_member ms f = Some m"
  by (induction ms) auto

lemma offset_in_Some: "f \<in> set (map mname ms) \<Longrightarrow> \<exists>start. offset_in pk off ms f = Some start"
  by (induction ms arbitrary: off) (auto simp: Let_def)

lemma struct_align_pos: "0 < struct_align pk ms"
  by (induction ms) (simp_all add: member_align_pos max_def)

lemma end_le_sizeof: "end_in (pack_log2 d) 0 (members d) \<le> sizeof_struct d"
  unfolding sizeof_struct_def by (rule align_up_ge [OF struct_align_pos])

lemma has_member_layout:
  "has_member d f \<Longrightarrow> \<exists>off n. offsetof d f = Some off \<and> sizeof_member d f = Some n"
proof -
  assume "has_member d f"
  then have mem: "f \<in> set (map mname (members d))" by (simp add: has_member_def)
  from find_member_Some [OF mem] obtain m where "find_member (members d) f = Some m" ..
  moreover from offset_in_Some [OF mem] obtain start
    where "offset_in (pack_log2 d) 0 (members d) f = Some start" ..
  ultimately show ?thesis by (simp add: offsetof_def sizeof_member_def)
qed

lemma field_within_struct:
  assumes "offsetof d f = Some off" and "sizeof_member d f = Some n"
  shows "off + n \<le> sizeof_struct d"
proof -
  from assms(2) obtain m where m: "find_member (members d) f = Some m" and n: "n = msize m"
    by (auto simp: sizeof_member_def)
  from assms(1) have "offset_in (pack_log2 d) 0 (members d) f = Some off"
    by (simp add: offsetof_def)
  from offset_in_bounds [OF this m] have "off + n \<le> end_in (pack_log2 d) 0 (members d)"
    by (simp add: n)
  also have "\<dots> \<le> sizeof_struct d" by (rule end_le_sizeof)
  finally show ?thesis .
qed

lemma fields_apart:
  assumes "f \<noteq> g"
    and "offsetof d f = Some a" and "sizeof_member d f = Some n"
    and "offsetof d g = Some b" and "sizeof_member d g = Some k"
  shows "a + n \<le> b \<or> b + k \<le> a"
proof -
  from assms(3) obtain mf where mf: "find_member (members d) f = Some mf" and n: "n = msize mf"
    by (auto simp: sizeof_member_def)
  from assms(5) obtain mg where mg: "find_member (members d) g = Some mg" and k: "k = msize mg"
    by (auto simp: sizeof_member_def)
  from assms(2) have a: "offset_in (pack_log2 d) 0 (members d) f = Some a"
    by (simp add: offsetof_def)
  from assms(4) have b: "offset_in (pack_log2 d) 0 (members d) g = Some b"
    by (simp add: offsetof_def)
  from offset_in_disjoint [OF assms(1) a mf b mg] show ?thesis by (simp add: n k)
qed

lemma two_fields_le_sizeof:
  assumes "f \<noteq> g"
    and "offsetof d f = Some a" and "sizeof_member d f = Some n"
    and "offsetof d g = Some b" and "sizeof_member d g = Some k"
  shows "n + k \<le> sizeof_struct d"
proof -
  from fields_apart [OF assms] have "a + n \<le> b \<or> b + k \<le> a" .
  moreover from field_within_struct [OF assms(2,3)] have "a + n \<le> sizeof_struct d" .
  moreover from field_within_struct [OF assms(4,5)] have "b + k \<le> sizeof_struct d" .
  ultimately show ?thesis by linarith
qed

text \<open>
  The first member is at offset 0, and the second follows it without padding when its
  alignment divides the size of the first.
\<close>

lemma align_up_zero: "align_up a 0 = 0"
  by (cases "a = 0") (simp_all add: align_up_def)

lemma align_up_multiple:
  assumes "0 < a" and "a dvd n"
  shows "align_up a n = n"
proof -
  from assms(2) obtain q where "n = a * q" by (rule dvdE)
  then have n: "n = q * a" by (simp add: mult.commute)
  have ne: "a \<noteq> 0" using assms(1) by simp
  have "q * a + a - 1 = q * a + (a - 1)" using assms(1) by simp
  also have "\<dots> div a = q + (a - 1) div a" by (rule div_mult_self3 [OF ne])
  also have "(a - 1) div a = 0" using assms(1) by (intro div_less) simp
  finally have "(q * a + a - 1) div a = q" by simp
  then show ?thesis by (simp only: align_up_def n)
qed

lemma leading_members_layout:
  assumes ms: "members d = a # b # rest"
    and ne: "mname a \<noteq> mname b"
    and al: "member_align (pack_log2 d) b dvd msize a"
  shows "offsetof d (mname a) = Some 0 \<and> sizeof_member d (mname a) = Some (msize a) \<and>
    offsetof d (mname b) = Some (msize a) \<and> sizeof_member d (mname b) = Some (msize b)"
proof -
  have "align_up (member_align (pack_log2 d) b) (msize a) = msize a"
    by (rule align_up_multiple [OF member_align_pos al])
  with ne show ?thesis
    by (simp add: offsetof_def sizeof_member_def ms align_up_zero Let_def)
qed

subsection \<open>Conversion to \<^verbatim>\<open>size_t\<close>\<close>

lemma unat_size_t: "int n < 2 ^ 64 \<Longrightarrow> unat (of_nat n :: size_t) = n"
proof -
  assume "int n < 2 ^ 64"
  then have "n < 2 ^ 64" by simp
  then show ?thesis by (simp add: unat_of_nat)
qed

lemma uint_size_t: "0 \<le> v \<Longrightarrow> v < 2 ^ 64 \<Longrightarrow> uint (word_of_int v :: size_t) = v"
  by (simp add: uint_word_of_int)

lemma size_t_sum_le: "unat a + unat b \<le> unat c \<Longrightarrow> a + b \<le> (c :: size_t)"
proof -
  assume le: "unat a + unat b \<le> unat c"
  have "unat c < 2 ^ LENGTH(64)" by (rule unsigned_less)
  with le have "unat a + unat b < 2 ^ LENGTH(64)" by linarith
  then have "unat (a + b) = unat a + unat b" by (simp only: unat_add_lem)
  with le show ?thesis by (simp add: word_le_nat_alt)
qed

lemma c_struct_facts:
  assumes d: "map_of (structs h) s = Some d" and fits: "fits_size_t h s"
  shows "\<exists>t. c_sizeof_struct h s = Inr t \<and> unat t = sizeof_struct d"
proof -
  from d fits have "int (sizeof_struct d) < 2 ^ 64" by (simp add: fits_size_t_def)
  then have "unat (of_nat (sizeof_struct d) :: size_t) = sizeof_struct d" by (rule unat_size_t)
  with d show ?thesis by (simp add: c_sizeof_struct_def)
qed

lemma c_field_facts:
  assumes d: "map_of (structs h) s = Some d" and f: "has_member d f" and fits: "fits_size_t h s"
  shows "\<exists>off n. c_offsetof h s f = Inr off \<and> c_sizeof_field h s f = Inr n \<and>
           offsetof d f = Some (unat off) \<and> sizeof_member d f = Some (unat n)"
proof -
  from has_member_layout [OF f] obtain a n
    where a: "offsetof d f = Some a" and n: "sizeof_member d f = Some n" by blast
  from d fits have lt: "int (sizeof_struct d) < 2 ^ 64" by (simp add: fits_size_t_def)
  from field_within_struct [OF a n] have "a \<le> sizeof_struct d" "n \<le> sizeof_struct d" by simp_all
  with lt have "int a < 2 ^ 64" "int n < 2 ^ 64" by linarith+
  then have "unat (of_nat a :: size_t) = a" "unat (of_nat n :: size_t) = n"
    by (simp_all only: unat_size_t)
  with d a n show ?thesis by (simp add: c_offsetof_def c_sizeof_field_def)
qed

lemma run_eq: "run h as p = (map (body h) as, p)"
  by (induction as arbitrary: p) (simp_all add: call_def)

section \<open>What a successful build provides\<close>

lemma compiles_task:
  "compiles h \<Longrightarrow>
   \<exists>d. map_of (structs h) ''mach_task_basic_info'' = Some d \<and>
       has_member d ''virtual_size'' \<and> has_member d ''resident_size''"
  by (auto simp: compiles_def split: option.splits)

lemma compiles_region:
  "compiles h \<Longrightarrow>
   \<exists>d. map_of (structs h) ''vm_region_basic_info_64'' = Some d \<and> has_member d ''reserved''"
  by (auto simp: compiles_def split: option.splits)

lemma compiles_macros:
  "compiles h \<Longrightarrow>
   (\<exists>v. map_of (macros h) ''GLOBAL_SHARED_TEXT_SEGMENT'' = Some v) \<and>
   (\<exists>v. map_of (macros h) ''SHARED_TEXT_REGION_SIZE'' = Some v) \<and>
   (\<exists>v. map_of (macros h) ''SHARED_DATA_REGION_SIZE'' = Some v)"
  by (auto simp: compiles_def)

lemma task_info_facts:
  assumes "compiles h" and fits: "fits_size_t h ''mach_task_basic_info''"
  shows "\<exists>d t ov sv or sr.
    getSizeofMachTaskBasicInfo h = Inr t \<and>
    getOffsetOfMachTaskBasicInfo_virtual_size h = Inr ov \<and>
    getSizeofMachTaskBasicInfo_virtual_size h = Inr sv \<and>
    getOffsetOfMachTaskBasicInfo_resident_size h = Inr or \<and>
    getSizeofMachTaskBasicInfo_resident_size h = Inr sr \<and>
    unat t = sizeof_struct d \<and>
    offsetof d ''virtual_size'' = Some (unat ov) \<and>
    sizeof_member d ''virtual_size'' = Some (unat sv) \<and>
    offsetof d ''resident_size'' = Some (unat or) \<and>
    sizeof_member d ''resident_size'' = Some (unat sr)"
proof -
  from compiles_task [OF assms(1)] obtain d
    where d: "map_of (structs h) ''mach_task_basic_info'' = Some d"
      and v: "has_member d ''virtual_size''" and r: "has_member d ''resident_size''" by blast
  note ts = c_struct_facts [OF d fits, folded getSizeofMachTaskBasicInfo_def]
  note vf = c_field_facts [OF d v fits,
      folded getOffsetOfMachTaskBasicInfo_virtual_size_def getSizeofMachTaskBasicInfo_virtual_size_def]
  note rf = c_field_facts [OF d r fits,
      folded getOffsetOfMachTaskBasicInfo_resident_size_def getSizeofMachTaskBasicInfo_resident_size_def]
  from ts vf rf show ?thesis by blast
qed

lemma region_info_facts:
  assumes "compiles h" and fits: "fits_size_t h ''vm_region_basic_info_64''"
  shows "\<exists>d t oz sz.
    getSizeofVmRegionBasicInfo64 h = Inr t \<and>
    getOffsetOfVmRegionBasicInfo64_reserved h = Inr oz \<and>
    getSizeofVmRegionBasicInfo64_reserved h = Inr sz \<and>
    unat t = sizeof_struct d \<and>
    offsetof d ''reserved'' = Some (unat oz) \<and>
    sizeof_member d ''reserved'' = Some (unat sz)"
proof -
  from compiles_region [OF assms(1)] obtain d
    where d: "map_of (structs h) ''vm_region_basic_info_64'' = Some d"
      and z: "has_member d ''reserved''" by blast
  note ts = c_struct_facts [OF d fits, folded getSizeofVmRegionBasicInfo64_def]
  note zf = c_field_facts [OF d z fits,
      folded getOffsetOfVmRegionBasicInfo64_reserved_def getSizeofVmRegionBasicInfo64_reserved_def]
  from ts zf show ?thesis by blast
qed

lemma c_macro_defined:
  "map_of (macros h) n = Some v \<Longrightarrow> c_macro h n = Inr (word_of_int v)"
  by (simp add: c_macro_def)

lemma size_t_pos: "0 < v \<Longrightarrow> v < 2 ^ 64 \<Longrightarrow> 0 < (word_of_int v :: size_t)"
  by (simp add: word_less_def uint_word_of_int)

lemma positive_macro_value:
  assumes v: "map_of (macros h) n = Some v" and pos: "0 < v" and lt: "v < 2 ^ 64"
  shows "\<exists>w. c_macro h n = Inr w \<and> 0 < w \<and> map_of (macros h) n = Some (uint w)"
proof -
  from pos lt have "uint (word_of_int v :: size_t) = v" by (simp add: uint_size_t)
  moreover from pos lt have "0 < (word_of_int v :: size_t)" by (rule size_t_pos)
  ultimately show ?thesis using v by (simp add: c_macro_def)
qed

lemma c_struct_succeeds:
  "map_of (structs h) s = Some d \<Longrightarrow> \<exists>v. c_sizeof_struct h s = Inr v"
  by (simp add: c_sizeof_struct_def)

lemma c_field_succeeds:
  assumes "map_of (structs h) s = Some d" and "has_member d f"
  shows "(\<exists>v. c_offsetof h s f = Inr v) \<and> (\<exists>v. c_sizeof_field h s f = Inr v)"
proof -
  from has_member_layout [OF assms(2)] obtain a n
    where "offsetof d f = Some a" and "sizeof_member d f = Some n" by blast
  with assms(1) show ?thesis by (simp add: c_offsetof_def c_sizeof_field_def)
qed

lemma body_succeeds:
  assumes "compiles h"
  shows "\<exists>v. body h a = Inr v"
proof -
  from compiles_macros [OF assms] obtain g t d
    where m: "map_of (macros h) ''GLOBAL_SHARED_TEXT_SEGMENT'' = Some g"
      "map_of (macros h) ''SHARED_TEXT_REGION_SIZE'' = Some t"
      "map_of (macros h) ''SHARED_DATA_REGION_SIZE'' = Some d" by blast
  from compiles_task [OF assms] obtain ti
    where ti: "map_of (structs h) ''mach_task_basic_info'' = Some ti"
      and v: "has_member ti ''virtual_size''" and r: "has_member ti ''resident_size''" by blast
  from compiles_region [OF assms] obtain ri
    where ri: "map_of (structs h) ''vm_region_basic_info_64'' = Some ri"
      and z: "has_member ri ''reserved''" by blast
  show ?thesis
  proof (cases a)
    case GlobalSharedTextSegment
    then show ?thesis by (simp add: getGlobalSharedTextSegment_def c_macro_defined [OF m(1)])
  next
    case SharedTextRegionSize
    then show ?thesis by (simp add: getSharedTextRegionSize_def c_macro_defined [OF m(2)])
  next
    case SharedDataRegionSize
    then show ?thesis by (simp add: getSharedDataRegionSize_def c_macro_defined [OF m(3)])
  next
    case SizeofMachTaskBasicInfo
    then show ?thesis
      using c_struct_succeeds [OF ti] by (simp add: getSizeofMachTaskBasicInfo_def)
  next
    case OffsetOfMachTaskBasicInfo_virtual_size
    then show ?thesis
      using c_field_succeeds [OF ti v] by (simp add: getOffsetOfMachTaskBasicInfo_virtual_size_def)
  next
    case SizeofMachTaskBasicInfo_virtual_size
    then show ?thesis
      using c_field_succeeds [OF ti v] by (simp add: getSizeofMachTaskBasicInfo_virtual_size_def)
  next
    case OffsetOfMachTaskBasicInfo_resident_size
    then show ?thesis
      using c_field_succeeds [OF ti r] by (simp add: getOffsetOfMachTaskBasicInfo_resident_size_def)
  next
    case SizeofMachTaskBasicInfo_resident_size
    then show ?thesis
      using c_field_succeeds [OF ti r] by (simp add: getSizeofMachTaskBasicInfo_resident_size_def)
  next
    case SizeofVmRegionBasicInfo64
    then show ?thesis
      using c_struct_succeeds [OF ri] by (simp add: getSizeofVmRegionBasicInfo64_def)
  next
    case OffsetOfVmRegionBasicInfo64_reserved
    then show ?thesis
      using c_field_succeeds [OF ri z] by (simp add: getOffsetOfVmRegionBasicInfo64_reserved_def)
  next
    case SizeofVmRegionBasicInfo64_reserved
    then show ?thesis
      using c_field_succeeds [OF ri z] by (simp add: getSizeofVmRegionBasicInfo64_reserved_def)
  qed
qed

lemma offset_in_member: "offset_in pk off ms f = Some start \<Longrightarrow> f \<in> set (map mname ms)"
  by (induction ms arbitrary: off) (auto simp: Let_def split: if_splits)

lemma offsetof_no_member: "\<not> has_member d f \<Longrightarrow> offsetof d f = None"
proof (cases "offsetof d f")
  case None
  then show ?thesis by simp
next
  case (Some start)
  then have "f \<in> set (map mname (members d))"
    unfolding offsetof_def by (rule offset_in_member)
  moreover assume "\<not> has_member d f"
  ultimately show ?thesis by (simp add: has_member_def)
qed

lemma build_fails_otherwise:
  assumes "\<not> compiles h"
  shows "\<exists>a e. body h a = Inl e"
proof -
  consider
    (g) "map_of (macros h) ''GLOBAL_SHARED_TEXT_SEGMENT'' = None"
  | (t) "map_of (macros h) ''SHARED_TEXT_REGION_SIZE'' = None"
  | (d) "map_of (macros h) ''SHARED_DATA_REGION_SIZE'' = None"
  | (ti) "map_of (structs h) ''mach_task_basic_info'' = None"
  | (v) ti where "map_of (structs h) ''mach_task_basic_info'' = Some ti"
      "\<not> has_member ti ''virtual_size''"
  | (r) ti where "map_of (structs h) ''mach_task_basic_info'' = Some ti"
      "\<not> has_member ti ''resident_size''"
  | (ri) "map_of (structs h) ''vm_region_basic_info_64'' = None"
  | (z) ri where "map_of (structs h) ''vm_region_basic_info_64'' = Some ri"
      "\<not> has_member ri ''reserved''"
    using assms by (auto simp: compiles_def split: option.splits)
  then show ?thesis
  proof cases
    case g
    then have "body h GlobalSharedTextSegment = Inl (UndeclaredIdentifier ''GLOBAL_SHARED_TEXT_SEGMENT'')"
      by (simp add: getGlobalSharedTextSegment_def c_macro_def)
    then show ?thesis by blast
  next
    case t
    then have "body h SharedTextRegionSize = Inl (UndeclaredIdentifier ''SHARED_TEXT_REGION_SIZE'')"
      by (simp add: getSharedTextRegionSize_def c_macro_def)
    then show ?thesis by blast
  next
    case d
    then have "body h SharedDataRegionSize = Inl (UndeclaredIdentifier ''SHARED_DATA_REGION_SIZE'')"
      by (simp add: getSharedDataRegionSize_def c_macro_def)
    then show ?thesis by blast
  next
    case ti
    then have "body h SizeofMachTaskBasicInfo = Inl (IncompleteType ''mach_task_basic_info'')"
      by (simp add: getSizeofMachTaskBasicInfo_def c_sizeof_struct_def)
    then show ?thesis by blast
  next
    case v
    from offsetof_no_member [OF v(2)] v(1)
    have "body h OffsetOfMachTaskBasicInfo_virtual_size =
        Inl (NoMember ''mach_task_basic_info'' ''virtual_size'')"
      by (simp add: getOffsetOfMachTaskBasicInfo_virtual_size_def c_offsetof_def)
    then show ?thesis by blast
  next
    case r
    from offsetof_no_member [OF r(2)] r(1)
    have "body h OffsetOfMachTaskBasicInfo_resident_size =
        Inl (NoMember ''mach_task_basic_info'' ''resident_size'')"
      by (simp add: getOffsetOfMachTaskBasicInfo_resident_size_def c_offsetof_def)
    then show ?thesis by blast
  next
    case ri
    then have "body h SizeofVmRegionBasicInfo64 = Inl (IncompleteType ''vm_region_basic_info_64'')"
      by (simp add: getSizeofVmRegionBasicInfo64_def c_sizeof_struct_def)
    then show ?thesis by blast
  next
    case z
    from offsetof_no_member [OF z(2)] z(1)
    have "body h OffsetOfVmRegionBasicInfo64_reserved =
        Inl (NoMember ''vm_region_basic_info_64'' ''reserved'')"
      by (simp add: getOffsetOfVmRegionBasicInfo64_reserved_def c_offsetof_def)
    then show ?thesis by blast
  qed
qed

section \<open>The concrete header set evaluated\<close>

lemmas example_defs =
  example_headers_def example_task_info_def example_region_info_def

lemmas layout_defs =
  sizeof_struct_def offsetof_def sizeof_member_def align_up_def member_align_def

lemma example_compiles: "compiles example_headers"
  by (simp add: compiles_def has_member_def example_defs)

lemma example_task_lookup:
  "map_of (structs example_headers) ''mach_task_basic_info'' = Some example_task_info"
  by (simp add: example_headers_def)

lemma example_region_lookup:
  "map_of (structs example_headers) ''vm_region_basic_info_64'' = Some example_region_info"
  by (simp add: example_headers_def)

lemma example_task_size: "sizeof_struct example_task_info = 48"
  by (simp add: example_task_info_def layout_defs)

lemma example_region_size: "sizeof_struct example_region_info = 36"
  by (simp add: example_region_info_def layout_defs)

lemma example_fits_task: "fits_size_t example_headers ''mach_task_basic_info''"
  by (simp add: fits_size_t_def example_task_lookup example_task_size)

lemma example_fits_region: "fits_size_t example_headers ''vm_region_basic_info_64''"
  by (simp add: fits_size_t_def example_region_lookup example_region_size)

lemma example_region_sizes: "region_sizes_as_specified example_headers"
  by (simp add: region_sizes_as_specified_def example_headers_def)

lemma example_field_sizes:
  "getSizeofMachTaskBasicInfo_virtual_size example_headers = Inr 8"
  "getSizeofMachTaskBasicInfo_resident_size example_headers = Inr 8"
  by (simp_all add: getSizeofMachTaskBasicInfo_virtual_size_def
      getSizeofMachTaskBasicInfo_resident_size_def c_sizeof_field_def example_task_lookup
      sizeof_member_def example_task_info_def)

section \<open>The claims\<close>

text \<open>
  Claim C1. Each of the eight structural accessors returns the fact it is named after:
  \<open>getSizeofMachTaskBasicInfo\<close> the size of \<^verbatim>\<open>struct mach_task_basic_info\<close>, the
  \<open>getOffsetOf\<close> accessors the byte offset of \<^verbatim>\<open>virtual_size\<close>, \<^verbatim>\<open>resident_size\<close> and
  \<^verbatim>\<open>reserved\<close> in their structure, the \<open>getSizeof\<close> accessors of a field the byte size of
  that field, and \<open>getSizeofVmRegionBasicInfo64\<close> the size of
  \<^verbatim>\<open>struct vm_region_basic_info_64\<close>, for the declarations \<open>ti\<close> and \<open>ri\<close> of the two
  structures in the headers of the target platform. The values are returned unchanged by
  the conversion to \<^verbatim>\<open>size_t\<close>.
\<close>

theorem accessors_report_layout:
  assumes "compiles h"
    and "fits_size_t h ''mach_task_basic_info''"
    and "fits_size_t h ''vm_region_basic_info_64''"
    and ti: "map_of (structs h) ''mach_task_basic_info'' = Some ti"
    and ri: "map_of (structs h) ''vm_region_basic_info_64'' = Some ri"
  shows "(\<exists>w. getSizeofMachTaskBasicInfo h = Inr w \<and> unat w = sizeof_struct ti) \<and>
    (\<exists>w. getOffsetOfMachTaskBasicInfo_virtual_size h = Inr w \<and>
       offsetof ti ''virtual_size'' = Some (unat w)) \<and>
    (\<exists>w. getSizeofMachTaskBasicInfo_virtual_size h = Inr w \<and>
       sizeof_member ti ''virtual_size'' = Some (unat w)) \<and>
    (\<exists>w. getOffsetOfMachTaskBasicInfo_resident_size h = Inr w \<and>
       offsetof ti ''resident_size'' = Some (unat w)) \<and>
    (\<exists>w. getSizeofMachTaskBasicInfo_resident_size h = Inr w \<and>
       sizeof_member ti ''resident_size'' = Some (unat w)) \<and>
    (\<exists>w. getSizeofVmRegionBasicInfo64 h = Inr w \<and> unat w = sizeof_struct ri) \<and>
    (\<exists>w. getOffsetOfVmRegionBasicInfo64_reserved h = Inr w \<and>
       offsetof ri ''reserved'' = Some (unat w)) \<and>
    (\<exists>w. getSizeofVmRegionBasicInfo64_reserved h = Inr w \<and>
       sizeof_member ri ''reserved'' = Some (unat w))"
proof -
  from compiles_task [OF assms(1)] ti
  have v: "has_member ti ''virtual_size''" and r: "has_member ti ''resident_size''" by auto
  from compiles_region [OF assms(1)] ri have z: "has_member ri ''reserved''" by auto
  note ts = c_struct_facts [OF ti assms(2), folded getSizeofMachTaskBasicInfo_def]
  note rs = c_struct_facts [OF ri assms(3), folded getSizeofVmRegionBasicInfo64_def]
  note vf = c_field_facts [OF ti v assms(2),
      folded getOffsetOfMachTaskBasicInfo_virtual_size_def getSizeofMachTaskBasicInfo_virtual_size_def]
  note rf = c_field_facts [OF ti r assms(2),
      folded getOffsetOfMachTaskBasicInfo_resident_size_def getSizeofMachTaskBasicInfo_resident_size_def]
  note zf = c_field_facts [OF ri z assms(3),
      folded getOffsetOfVmRegionBasicInfo64_reserved_def getSizeofVmRegionBasicInfo64_reserved_def]
  from ts rs vf rf zf show ?thesis by blast
qed

text \<open>The theorem at the concrete header set.\<close>

theorem accessors_report_layout_witness:
  "compiles example_headers \<and>
   fits_size_t example_headers ''mach_task_basic_info'' \<and>
   fits_size_t example_headers ''vm_region_basic_info_64'' \<and>
   map_of (structs example_headers) ''mach_task_basic_info'' = Some example_task_info \<and>
   map_of (structs example_headers) ''vm_region_basic_info_64'' = Some example_region_info \<and>
   (\<exists>w. getSizeofMachTaskBasicInfo example_headers = Inr w \<and>
      unat w = sizeof_struct example_task_info) \<and>
   (\<exists>w. getOffsetOfMachTaskBasicInfo_virtual_size example_headers = Inr w \<and>
      offsetof example_task_info ''virtual_size'' = Some (unat w)) \<and>
   (\<exists>w. getSizeofMachTaskBasicInfo_virtual_size example_headers = Inr w \<and>
      sizeof_member example_task_info ''virtual_size'' = Some (unat w)) \<and>
   (\<exists>w. getOffsetOfMachTaskBasicInfo_resident_size example_headers = Inr w \<and>
      offsetof example_task_info ''resident_size'' = Some (unat w)) \<and>
   (\<exists>w. getSizeofMachTaskBasicInfo_resident_size example_headers = Inr w \<and>
      sizeof_member example_task_info ''resident_size'' = Some (unat w)) \<and>
   (\<exists>w. getSizeofVmRegionBasicInfo64 example_headers = Inr w \<and>
      unat w = sizeof_struct example_region_info) \<and>
   (\<exists>w. getOffsetOfVmRegionBasicInfo64_reserved example_headers = Inr w \<and>
      offsetof example_region_info ''reserved'' = Some (unat w)) \<and>
   (\<exists>w. getSizeofVmRegionBasicInfo64_reserved example_headers = Inr w \<and>
      sizeof_member example_region_info ''reserved'' = Some (unat w))"
  using accessors_report_layout [OF example_compiles example_fits_task example_fits_region
      example_task_lookup example_region_lookup]
    example_compiles example_fits_task example_fits_region example_task_lookup
    example_region_lookup
  by simp

text \<open>
  Claim C2. Each probed field fits within its owning structure: for \<^verbatim>\<open>virtual_size\<close> and
  \<^verbatim>\<open>resident_size\<close> in \<^verbatim>\<open>mach_task_basic_info\<close> and for \<^verbatim>\<open>reserved\<close> in
  \<^verbatim>\<open>vm_region_basic_info_64\<close>, the reported offset plus the reported field size does not
  exceed the reported size of the structure. The inequality holds of the numbers and of
  the \<^verbatim>\<open>size_t\<close> values, whose sum does not wrap.
\<close>

theorem probed_fields_fit:
  assumes "compiles h"
    and "fits_size_t h ''mach_task_basic_info''"
    and "fits_size_t h ''vm_region_basic_info_64''"
  shows "\<exists>t ov sv or sr r oz sz.
    getSizeofMachTaskBasicInfo h = Inr t \<and>
    getOffsetOfMachTaskBasicInfo_virtual_size h = Inr ov \<and>
    getSizeofMachTaskBasicInfo_virtual_size h = Inr sv \<and>
    getOffsetOfMachTaskBasicInfo_resident_size h = Inr or \<and>
    getSizeofMachTaskBasicInfo_resident_size h = Inr sr \<and>
    getSizeofVmRegionBasicInfo64 h = Inr r \<and>
    getOffsetOfVmRegionBasicInfo64_reserved h = Inr oz \<and>
    getSizeofVmRegionBasicInfo64_reserved h = Inr sz \<and>
    unat ov + unat sv \<le> unat t \<and> ov + sv \<le> t \<and>
    unat or + unat sr \<le> unat t \<and> or + sr \<le> t \<and>
    unat oz + unat sz \<le> unat r \<and> oz + sz \<le> r"
proof -
  from task_info_facts [OF assms(1,2)] obtain d t ov sv "or" sr where
    acc: "getSizeofMachTaskBasicInfo h = Inr t"
      "getOffsetOfMachTaskBasicInfo_virtual_size h = Inr ov"
      "getSizeofMachTaskBasicInfo_virtual_size h = Inr sv"
      "getOffsetOfMachTaskBasicInfo_resident_size h = Inr or"
      "getSizeofMachTaskBasicInfo_resident_size h = Inr sr"
    and t: "unat t = sizeof_struct d"
    and v: "offsetof d ''virtual_size'' = Some (unat ov)"
      "sizeof_member d ''virtual_size'' = Some (unat sv)"
    and r: "offsetof d ''resident_size'' = Some (unat or)"
      "sizeof_member d ''resident_size'' = Some (unat sr)"
    by blast
  from region_info_facts [OF assms(1,3)] obtain e r oz sz where
    acc': "getSizeofVmRegionBasicInfo64 h = Inr r"
      "getOffsetOfVmRegionBasicInfo64_reserved h = Inr oz"
      "getSizeofVmRegionBasicInfo64_reserved h = Inr sz"
    and r': "unat r = sizeof_struct e"
    and z: "offsetof e ''reserved'' = Some (unat oz)"
      "sizeof_member e ''reserved'' = Some (unat sz)"
    by blast
  have 1: "unat ov + unat sv \<le> unat t" using field_within_struct [OF v] t by simp
  have 2: "unat or + unat sr \<le> unat t" using field_within_struct [OF r] t by simp
  have 3: "unat oz + unat sz \<le> unat r" using field_within_struct [OF z] r' by simp
  note w = size_t_sum_le [OF 1] size_t_sum_le [OF 2] size_t_sum_le [OF 3]
  from acc acc' 1 2 3 w show ?thesis by blast
qed

text \<open>The theorem at the concrete header set.\<close>

theorem probed_fields_fit_witness:
  "compiles example_headers \<and>
   fits_size_t example_headers ''mach_task_basic_info'' \<and>
   fits_size_t example_headers ''vm_region_basic_info_64'' \<and>
   (\<exists>t ov sv or sr r oz sz.
    getSizeofMachTaskBasicInfo example_headers = Inr t \<and>
    getOffsetOfMachTaskBasicInfo_virtual_size example_headers = Inr ov \<and>
    getSizeofMachTaskBasicInfo_virtual_size example_headers = Inr sv \<and>
    getOffsetOfMachTaskBasicInfo_resident_size example_headers = Inr or \<and>
    getSizeofMachTaskBasicInfo_resident_size example_headers = Inr sr \<and>
    getSizeofVmRegionBasicInfo64 example_headers = Inr r \<and>
    getOffsetOfVmRegionBasicInfo64_reserved example_headers = Inr oz \<and>
    getSizeofVmRegionBasicInfo64_reserved example_headers = Inr sz \<and>
    unat ov + unat sv \<le> unat t \<and> ov + sv \<le> t \<and>
    unat or + unat sr \<le> unat t \<and> or + sr \<le> t \<and>
    unat oz + unat sz \<le> unat r \<and> oz + sz \<le> r)"
  using probed_fields_fit [OF example_compiles example_fits_task example_fits_region]
    example_compiles example_fits_task example_fits_region
  by simp

text \<open>
  Claim C3. The byte ranges reported for \<^verbatim>\<open>virtual_size\<close> and \<^verbatim>\<open>resident_size\<close>, each the
  half-open interval from the offset of the field to the offset plus its size, do not
  overlap.
\<close>

theorem statistics_fields_disjoint:
  assumes "compiles h" and "fits_size_t h ''mach_task_basic_info''"
  shows "\<exists>ov sv or sr.
    getOffsetOfMachTaskBasicInfo_virtual_size h = Inr ov \<and>
    getSizeofMachTaskBasicInfo_virtual_size h = Inr sv \<and>
    getOffsetOfMachTaskBasicInfo_resident_size h = Inr or \<and>
    getSizeofMachTaskBasicInfo_resident_size h = Inr sr \<and>
    {unat ov ..< unat ov + unat sv} \<inter> {unat or ..< unat or + unat sr} = {}"
proof -
  from task_info_facts [OF assms] obtain d t ov sv "or" sr where
    acc: "getOffsetOfMachTaskBasicInfo_virtual_size h = Inr ov"
      "getSizeofMachTaskBasicInfo_virtual_size h = Inr sv"
      "getOffsetOfMachTaskBasicInfo_resident_size h = Inr or"
      "getSizeofMachTaskBasicInfo_resident_size h = Inr sr"
    and v: "offsetof d ''virtual_size'' = Some (unat ov)"
      "sizeof_member d ''virtual_size'' = Some (unat sv)"
    and r: "offsetof d ''resident_size'' = Some (unat or)"
      "sizeof_member d ''resident_size'' = Some (unat sr)"
    by blast
  have "''virtual_size'' \<noteq> ''resident_size''" by simp
  from fields_apart [OF this v r]
  have "unat ov + unat sv \<le> unat or \<or> unat or + unat sr \<le> unat ov" .
  then have "{unat ov ..< unat ov + unat sv} \<inter> {unat or ..< unat or + unat sr} = {}"
    by auto
  with acc show ?thesis by blast
qed

text \<open>The theorem at the concrete header set.\<close>

theorem statistics_fields_disjoint_witness:
  "compiles example_headers \<and>
   fits_size_t example_headers ''mach_task_basic_info'' \<and>
   (\<exists>ov sv or sr.
    getOffsetOfMachTaskBasicInfo_virtual_size example_headers = Inr ov \<and>
    getSizeofMachTaskBasicInfo_virtual_size example_headers = Inr sv \<and>
    getOffsetOfMachTaskBasicInfo_resident_size example_headers = Inr or \<and>
    getSizeofMachTaskBasicInfo_resident_size example_headers = Inr sr \<and>
    {unat ov ..< unat ov + unat sv} \<inter> {unat or ..< unat or + unat sr} = {})"
  using statistics_fields_disjoint [OF example_compiles example_fits_task]
    example_compiles example_fits_task
  by simp

text \<open>
  Claim C4. \<open>getSharedTextRegionSize\<close> and \<open>getSharedDataRegionSize\<close> return strictly
  positive constants, equal to the values that the header defines for
  \<^verbatim>\<open>SHARED_TEXT_REGION_SIZE\<close> and \<^verbatim>\<open>SHARED_DATA_REGION_SIZE\<close>, when the header defines them
  as the specification describes them.
\<close>

theorem region_sizes_positive:
  assumes "region_sizes_as_specified h"
  shows "\<exists>t d.
    getSharedTextRegionSize h = Inr t \<and> getSharedDataRegionSize h = Inr d \<and>
    0 < t \<and> 0 < d \<and>
    map_of (macros h) ''SHARED_TEXT_REGION_SIZE'' = Some (uint t) \<and>
    map_of (macros h) ''SHARED_DATA_REGION_SIZE'' = Some (uint d)"
proof -
  from assms obtain t d
    where t: "map_of (macros h) ''SHARED_TEXT_REGION_SIZE'' = Some t" "0 < t" "t < 2 ^ 64"
      and d: "map_of (macros h) ''SHARED_DATA_REGION_SIZE'' = Some d" "0 < d" "d < 2 ^ 64"
    by (auto simp: region_sizes_as_specified_def split: option.splits)
  from positive_macro_value [OF t] positive_macro_value [OF d]
  show ?thesis unfolding getSharedTextRegionSize_def getSharedDataRegionSize_def by blast
qed

text \<open>The theorem at the concrete header set.\<close>

theorem region_sizes_positive_witness:
  "region_sizes_as_specified example_headers \<and>
   (\<exists>t d.
    getSharedTextRegionSize example_headers = Inr t \<and>
    getSharedDataRegionSize example_headers = Inr d \<and>
    0 < t \<and> 0 < d \<and>
    map_of (macros example_headers) ''SHARED_TEXT_REGION_SIZE'' = Some (uint t) \<and>
    map_of (macros example_headers) ''SHARED_DATA_REGION_SIZE'' = Some (uint d))"
  using region_sizes_positive [OF example_region_sizes] example_region_sizes
  by simp

text \<open>
  Claim C5. Every accessor is deterministic and stateless: in any sequence of calls, two
  calls of the same accessor return the same value, whatever calls come before or between
  them; the sequence leaves the process as it found it; and the value is the one a single
  call returns from any other state \<open>q\<close> of the process.
\<close>

theorem calls_deterministic:
  assumes "i < length as" and "j < length as" and "as ! i = as ! j"
  shows "fst (run h as p) ! i = fst (run h as p) ! j \<and>
    snd (run h as p) = p \<and>
    fst (run h as p) ! i = fst (call h (as ! i) q)"
  using assms by (simp add: run_eq call_def)

text \<open>The theorem at the concrete header set.\<close>

theorem calls_deterministic_witness:
  "(0::nat) < length [SizeofMachTaskBasicInfo, SharedTextRegionSize, SizeofMachTaskBasicInfo] \<and>
   (2::nat) < length [SizeofMachTaskBasicInfo, SharedTextRegionSize, SizeofMachTaskBasicInfo] \<and>
   [SizeofMachTaskBasicInfo, SharedTextRegionSize, SizeofMachTaskBasicInfo] ! 0 =
     [SizeofMachTaskBasicInfo, SharedTextRegionSize, SizeofMachTaskBasicInfo] ! 2 \<and>
   fst (run example_headers [SizeofMachTaskBasicInfo, SharedTextRegionSize, SizeofMachTaskBasicInfo]
          \<lparr>memory = \<lambda>_. 0\<rparr>) ! 0 =
   fst (run example_headers [SizeofMachTaskBasicInfo, SharedTextRegionSize, SizeofMachTaskBasicInfo]
          \<lparr>memory = \<lambda>_. 0\<rparr>) ! 2 \<and>
   snd (run example_headers [SizeofMachTaskBasicInfo, SharedTextRegionSize, SizeofMachTaskBasicInfo]
          \<lparr>memory = \<lambda>_. 0\<rparr>) = \<lparr>memory = \<lambda>_. 0\<rparr> \<and>
   fst (run example_headers [SizeofMachTaskBasicInfo, SharedTextRegionSize, SizeofMachTaskBasicInfo]
          \<lparr>memory = \<lambda>_. 0\<rparr>) ! 0 =
   fst (call example_headers SizeofMachTaskBasicInfo \<lparr>memory = \<lambda>_. 255\<rparr>)"
proof -
  let ?tr = "[SizeofMachTaskBasicInfo, SharedTextRegionSize, SizeofMachTaskBasicInfo]"
  have i: "(0::nat) < length ?tr" and j: "(2::nat) < length ?tr" and e: "?tr ! 0 = ?tr ! 2"
    by simp_all
  from calls_deterministic [OF i j e, of example_headers "\<lparr>memory = \<lambda>_. 0\<rparr>" "\<lparr>memory = \<lambda>_. 255\<rparr>"]
  show ?thesis by (auto simp del: run.simps)
qed

text \<open>
  Claim C6. Once the file compiles, a call of any accessor, which takes no argument, from
  any state of the process returns one \<^verbatim>\<open>size_t\<close> value and no error, and leaves the process
  unchanged.
\<close>

theorem accessors_always_succeed:
  assumes "compiles h"
  shows "\<exists>v. call h a p = (Inr v, p)"
  using body_succeeds [OF assms, of a] by (simp add: call_def)

text \<open>The theorem at the concrete header set.\<close>

theorem accessors_always_succeed_witness:
  "compiles example_headers \<and>
   (\<exists>v. call example_headers OffsetOfVmRegionBasicInfo64_reserved \<lparr>memory = \<lambda>_. 0\<rparr> =
      (Inr v, \<lparr>memory = \<lambda>_. 0\<rparr>))"
  using accessors_always_succeed [OF example_compiles,
      of OffsetOfVmRegionBasicInfo64_reserved "\<lparr>memory = \<lambda>_. 0\<rparr>"] example_compiles
  by simp

text \<open>
  Claim C7. The value every accessor returns is non-negative and representable as an
  unsigned 64-bit integer.
\<close>

theorem values_fit_64_bits:
  assumes "compiles h"
  shows "\<exists>v. body h a = Inr v \<and> 0 \<le> uint v \<and> uint v < 2 ^ 64"
proof -
  from body_succeeds [OF assms] obtain v where v: "body h a = Inr v" ..
  have "uint v < 2 ^ LENGTH(64)" by (rule unsigned_less)
  with v show ?thesis by simp
qed

text \<open>The theorem at the concrete header set.\<close>

theorem values_fit_64_bits_witness:
  "compiles example_headers \<and>
   (\<exists>v. body example_headers GlobalSharedTextSegment = Inr v \<and> 0 \<le> uint v \<and> uint v < 2 ^ 64)"
  using values_fit_64_bits [OF example_compiles, of GlobalSharedTextSegment] example_compiles
  by simp

text \<open>
  Claim C8. \<open>getSizeofMachTaskBasicInfo\<close> is at least the sum of the reported sizes of the
  \<^verbatim>\<open>virtual_size\<close> and \<^verbatim>\<open>resident_size\<close> fields; when each of the two is at least 8 bytes,
  it is at least 16.
\<close>

theorem task_info_size_covers_fields:
  assumes "compiles h" and "fits_size_t h ''mach_task_basic_info''"
  shows "\<exists>t sv sr.
    getSizeofMachTaskBasicInfo h = Inr t \<and>
    getSizeofMachTaskBasicInfo_virtual_size h = Inr sv \<and>
    getSizeofMachTaskBasicInfo_resident_size h = Inr sr \<and>
    unat sv + unat sr \<le> unat t \<and>
    (8 \<le> unat sv \<and> 8 \<le> unat sr \<longrightarrow> 16 \<le> unat t)"
proof -
  from task_info_facts [OF assms] obtain d t ov sv "or" sr where
    acc: "getSizeofMachTaskBasicInfo h = Inr t"
      "getSizeofMachTaskBasicInfo_virtual_size h = Inr sv"
      "getSizeofMachTaskBasicInfo_resident_size h = Inr sr"
    and "getOffsetOfMachTaskBasicInfo_virtual_size h = Inr ov"
      "getOffsetOfMachTaskBasicInfo_resident_size h = Inr or"
    and t: "unat t = sizeof_struct d"
    and v: "offsetof d ''virtual_size'' = Some (unat ov)"
      "sizeof_member d ''virtual_size'' = Some (unat sv)"
    and r: "offsetof d ''resident_size'' = Some (unat or)"
      "sizeof_member d ''resident_size'' = Some (unat sr)"
    by blast
  have "''virtual_size'' \<noteq> ''resident_size''" by simp
  from two_fields_le_sizeof [OF this v r] t have le: "unat sv + unat sr \<le> unat t" by simp
  then have "8 \<le> unat sv \<and> 8 \<le> unat sr \<longrightarrow> 16 \<le> unat t" by linarith
  with acc le show ?thesis by blast
qed

text \<open>The theorem at the concrete header set.\<close>

theorem task_info_size_covers_fields_witness:
  "compiles example_headers \<and>
   fits_size_t example_headers ''mach_task_basic_info'' \<and>
   (\<exists>t sv sr.
    getSizeofMachTaskBasicInfo example_headers = Inr t \<and>
    getSizeofMachTaskBasicInfo_virtual_size example_headers = Inr sv \<and>
    getSizeofMachTaskBasicInfo_resident_size example_headers = Inr sr \<and>
    unat sv + unat sr \<le> unat t \<and>
    8 \<le> unat sv \<and> 8 \<le> unat sr \<and> 16 \<le> unat t)"
proof -
  from task_info_size_covers_fields [OF example_compiles example_fits_task]
  obtain t sv sr where
    acc: "getSizeofMachTaskBasicInfo example_headers = Inr t"
      "getSizeofMachTaskBasicInfo_virtual_size example_headers = Inr sv"
      "getSizeofMachTaskBasicInfo_resident_size example_headers = Inr sr"
    and le: "unat sv + unat sr \<le> unat t"
    and imp: "8 \<le> unat sv \<and> 8 \<le> unat sr \<longrightarrow> 16 \<le> unat t"
    by blast
  from acc(2,3) have "sv = 8" "sr = 8" by (simp_all add: example_field_sizes)
  then have eight: "8 \<le> unat sv" "8 \<le> unat sr" by simp_all
  with imp have "16 \<le> unat t" by simp
  with acc le eight example_compiles example_fits_task show ?thesis by blast
qed

end
